theory Spec2Isabelle
  imports Main "HOL-Library.AList"
begin

section \<open>Values, exceptions and outcomes\<close>

text \<open>
  The values that travel through \<open>util/cmd.py\<close>: what argparse stores in a namespace and
  what a command returns. \<open>PyNone\<close> is Python's \<open>None\<close>.
\<close>

datatype pyval =
    PyNone
  | PyBool bool
  | PyInt int
  | PyStr string

text \<open>Python truthiness (\<open>if not condition\<close>, \<open>x and y\<close>, \<open>x or y\<close>).\<close>

fun truthy :: "pyval \<Rightarrow> bool" where
  "truthy PyNone = False"
| "truthy (PyBool b) = b"
| "truthy (PyInt i) = (i \<noteq> 0)"
| "truthy (PyStr s) = (s \<noteq> [])"

text \<open>
  Every exception the module raises itself or lets through. \<open>BadInputError\<close> is the
  module's own class (a \<open>RuntimeError\<close> carrying a reason); \<open>OtherError\<close> stands for any
  exception raised inside a command body.
\<close>

datatype exn =
    AssertionError string
  | AttributeError string
  | IndexError
  | TypeError
  | FileNotFoundError string
  | FileExistsError
  | SystemExit int
  | BadInputError string
  | OtherError string

text \<open>A call either raises or returns, and leaves a state behind in both cases.\<close>

type_synonym ('a, 's) outcome = "(exn + 'a) \<times> 's"

section \<open>The state of the process\<close>

text \<open>
  What the module reads and writes outside its own arguments: \<open>sys.argv\<close>,
  \<open>os.environ\<close>, \<open>sys.modules\<close> (the names of the loaded modules), the paths that exist
  in the file system, the global \<open>tempfile.tempdir\<close>, the root logger (its level, the
  number of handlers added to it and the calls made to it, each with its level, format
  string and arguments) and what argparse has written to the terminal.
\<close>

datatype console_output =
    HelpShown
  | EnumeratedHelpShown
  | VersionShown string
  | UsageError string

record world =
  argv :: "string list"
  environ :: "(string \<times> string) list"
  sys_modules :: "string list"
  fs :: "string list"
  tempdir :: "string option"
  log_level :: int
  log_handlers :: nat
  log_calls :: "(string \<times> string \<times> pyval list) list"
  console :: "console_output list"

section \<open>\<open>check_input\<close>\<close>

text \<open>
  \<^verbatim>\<open>
  def check_input(condition, error_msg):
      if not condition:
          raise BadInputError(error_msg)
  \<close>
  The state is threaded through untouched: the function reads and writes nothing.
\<close>

definition check_input :: "pyval \<Rightarrow> string \<Rightarrow> 's \<Rightarrow> (pyval, 's) outcome" where
  "check_input condition error_msg s =
     (if \<not> truthy condition then (Inl (BadInputError error_msg), s)
      else (Inr PyNone, s))"

section \<open>\<open>main_command\<close>: binding a namespace to a handler's parameters\<close>

text \<open>
  A namespace (\<open>vars(args)\<close>) is a dictionary; Python dictionaries keep insertion order
  and have distinct keys, so it is an association list.
\<close>

type_synonym 'v namespace = "(string \<times> 'v) list"

text \<open>
  A Python function as this module uses one: its \<open>__doc__\<close>, the three components of
  its argspec that are inspected (\<open>argspec.args\<close>, and \<open>argspec[1:3]\<close>, the names of
  the \<open>*args\<close> and \<open>**kwargs\<close> parameters), what calling it with keyword arguments
  does (\<open>f(**d)\<close>) and what calling it with the namespace as its one positional
  argument does (\<open>f(args)\<close>).
\<close>

record ('v, 'r) cmd_impl =
  doc :: "string option"
  argspec_args :: "string list"
  argspec_varargs :: "string option"
  argspec_keywords :: "string option"
  call_kw :: "'v namespace \<Rightarrow> 'r"
  call_args :: "'v namespace \<Rightarrow> 'r"

text \<open>
  Modelled from the spec: \<open>util.misc.dict_subset\<close> is not part of the sources at hand.
  The spec: "select only the namespace fields whose names intersect the handler's declared
  parameter names".
\<close>

definition dict_subset :: "'v namespace \<Rightarrow> string list \<Rightarrow> 'v namespace" where
  "dict_subset d keys = filter (\<lambda>(k, v). k \<in> set keys) d"

text \<open>
  \<^verbatim>\<open>
  def main_command(mainfunc):
      argspec = util.misc.getargspec(mainfunc)
      assert argspec[1:3] == (None, None), 'Command impls with *args or **kwargs not supported'
      mainfunc_args = set(util.misc.flatten(argspec.args))
      def _main(args):
          return mainfunc(**util.misc.dict_subset(vars(args), mainfunc_args))
      return _main
  \<close>
  The assertion is modelled as Python runs it by default (assertions enabled).
  Parameter names are a flat list of strings, on which \<open>flatten\<close> changes nothing.
\<close>

definition main_command :: "('v, 'r) cmd_impl \<Rightarrow> exn + ('v namespace \<Rightarrow> 'r)" where
  "main_command mainfunc =
     (if (argspec_varargs mainfunc, argspec_keywords mainfunc) \<noteq> (None, None)
      then Inl (AssertionError ''Command impls with *args or **kwargs not supported'')
      else Inr (\<lambda>args. call_kw mainfunc (dict_subset args (argspec_args mainfunc))))"

section \<open>The plugin manager and the two hooks of the module\<close>

text \<open>
  A command as the dispatcher calls it: from the parsed arguments and the state of the
  process to a result or an exception.
\<close>

type_synonym ('a, 's) cmd_main = "'a \<Rightarrow> 's \<Rightarrow> (pyval, 's) outcome"

type_synonym ('a, 's) call_cmd_fn = "('a, 's) cmd_main \<Rightarrow> 'a \<Rightarrow> 's \<Rightarrow> (pyval, 's) outcome"

text \<open>
  \<^verbatim>\<open>
  @util.cmd_plugins.cmd_hookimpl(trylast=True)
  def cmd_call_cmd(cmd_main, args):
      return cmd_main(args)

  @util.cmd_plugins.cmd_hookimpl(trylast=True)
  def cmd_handle_file_arg(val):
      return val
  \<close>
\<close>

definition cmd_call_cmd :: "('a, 's) call_cmd_fn" where
  "cmd_call_cmd cmd_main args = cmd_main args"

definition cmd_handle_file_arg :: "pyval \<Rightarrow> pyval" where
  "cmd_handle_file_arg val = val"

text \<open>
  Modelled from the spec: the plugin manager \<open>util.cmd_plugins.cmd_plugin_mgr\<close> and its
  hook specifications are not part of the sources at hand. The spec: a plugin has an
  identity and contributes zero or more implementations of the extension points, each
  of which may carry the "run only if nothing else handled it" marker (\<open>trylast\<close>);
  "\<open>register(plugin)\<close> adds a plugin's contributed implementations unless its identity is
  already present"; implementations are invoked "in registration order, with
  implementations marked run-only-if-nothing-else-handled-it invoked last"; for
  \<open>configure_parser\<close> every implementation runs; for \<open>call_command\<close> "the first
  implementation that does not itself delegate to run-the-next-one determines the final
  result", where an implementation delegates by returning no value (\<open>None\<close>).
\<close>

record ('a, 's, 'p) plugin =
  plugin_name :: string
  call_cmd_impl :: "(bool \<times> ('a, 's) call_cmd_fn) option"
  handle_file_arg_impl :: "(bool \<times> (pyval \<Rightarrow> pyval)) option"
  configure_parser_impl :: "(bool \<times> ('p \<Rightarrow> 'p)) option"

type_synonym ('a, 's, 'p) plugin_mgr = "('a, 's, 'p) plugin list"

definition list_name_plugin :: "('a, 's, 'p) plugin_mgr \<Rightarrow> (string \<times> ('a, 's, 'p) plugin) list" where
  "list_name_plugin mgr = map (\<lambda>p. (plugin_name p, p)) mgr"

definition register :: "('a, 's, 'p) plugin \<Rightarrow> ('a, 's, 'p) plugin_mgr \<Rightarrow> ('a, 's, 'p) plugin_mgr" where
  "register p mgr = (if plugin_name p \<in> plugin_name ` set mgr then mgr else mgr @ [p])"

definition hook_impls :: "('pl \<Rightarrow> (bool \<times> 'i) option) \<Rightarrow> 'pl list \<Rightarrow> 'i list" where
  "hook_impls sel mgr =
     (let impls = List.map_filter sel mgr
      in map snd (filter (\<lambda>i. \<not> fst i) impls) @ map snd (filter fst impls))"

fun run_first_result :: "('a, 's) call_cmd_fn list \<Rightarrow> ('a, 's) call_cmd_fn" where
  "run_first_result [] cmd_main args s = (Inr PyNone, s)"
| "run_first_result (impl # impls) cmd_main args s =
     (case impl cmd_main args s of
        (Inl e, s') \<Rightarrow> (Inl e, s')
      | (Inr v, s') \<Rightarrow> (if v = PyNone then run_first_result impls cmd_main args s' else (Inr v, s')))"

definition hook_cmd_call_cmd :: "('a, 's, 'p) plugin_mgr \<Rightarrow> ('a, 's) call_cmd_fn" where
  "hook_cmd_call_cmd mgr = run_first_result (hook_impls call_cmd_impl mgr)"

definition hook_cmd_configure_parser :: "('a, 's, 'p) plugin_mgr \<Rightarrow> 'p \<Rightarrow> 'p" where
  "hook_cmd_configure_parser mgr parser = fold (\<lambda>impl p. impl p) (hook_impls configure_parser_impl mgr) parser"

text \<open>
  The plugin that \<open>sys.modules[__name__]\<close> is: this module, with its two hook
  implementations, both \<open>trylast\<close>.
\<close>

definition this_module :: "('a, 's, 'p) plugin" where
  "this_module =
     \<lparr>plugin_name = ''util.cmd'',
      call_cmd_impl = Some (True, cmd_call_cmd),
      handle_file_arg_impl = Some (True, cmd_handle_file_arg),
      configure_parser_impl = None\<rparr>"

text \<open>
  \<^verbatim>\<open>
  def load_cmd_plugins():
      if not util.cmd_plugins.cmd_plugin_mgr.list_name_plugin():
          util.cmd_plugins.cmd_plugin_mgr.register(sys.modules[__name__])
          util.cmd_plugins.cmd_plugin_mgr.register(util.metadata)
  \<close>
  The plugin manager is a global of the process: it is passed in and returned.
  \<open>util.metadata\<close> is not part of the sources at hand and is a parameter.
\<close>

definition load_cmd_plugins :: "('a, 's, 'p) plugin \<Rightarrow> ('a, 's, 'p) plugin_mgr \<Rightarrow> ('a, 's, 'p) plugin_mgr" where
  "load_cmd_plugins metadata mgr =
     (if list_name_plugin mgr = [] then register metadata (register this_module mgr) else mgr)"

section \<open>Parsers\<close>

text \<open>
  The part of an \<open>argparse.ArgumentParser\<close> that this module reads or writes: its
  description and usage, the options added to it, the defaults set by \<open>set_defaults\<close>
  (the callback \<open>func_main\<close> is kept apart from the other defaults since it is a function),
  and the subcommand dispatcher made by \<open>add_subparsers\<close>, whose choices are the
  subcommand name, the help string given to \<open>add_parser\<close> and the child parser.
  \<open>help=argparse.SUPPRESS\<close> is the string \<open>==SUPPRESS==\<close>, as in argparse.
\<close>

datatype action_kind =
    StoreAction
  | StoreTrueAction
  | HelpAction
  | EnumeratingHelpAction
  | VersionAction string

record argument =
  option_strings :: "string list"
  dest :: string
  action :: action_kind
  default_value :: pyval
  arg_help :: "string option"

datatype 'f parser = Parser
  (description: "string option")
  (usage: "string option")
  (actions: "argument list")
  (defaults: "pyval namespace")
  (func_main: "'f option")
  (subparsers: "'f subparsers option")
and 'f subparsers = Subparsers
  (sp_title: string)
  (sp_dest: string)
  (sp_metavar: string)
  (sp_default: pyval)
  (choices: "(string option \<times> string option \<times> 'f parser) list")

definition SUPPRESS :: string where
  "SUPPRESS = ''==SUPPRESS==''"

text \<open>\<open>argparse.ArgumentParser(description=..., usage=..., add_help=...)\<close>.\<close>

definition ArgumentParser :: "string option \<Rightarrow> string option \<Rightarrow> bool \<Rightarrow> 'f parser" where
  "ArgumentParser descr usg add_help =
     Parser descr usg
       (if add_help
        then [\<lparr>option_strings = [''-h'', ''--help''], dest = ''help'', action = HelpAction,
               default_value = PyStr SUPPRESS, arg_help = Some ''show this help message and exit''\<rparr>]
        else [])
       [] None None"

definition add_argument :: "argument \<Rightarrow> 'f parser \<Rightarrow> 'f parser" where
  "add_argument a p =
     (case p of Parser d u acts dfl fm sp \<Rightarrow> Parser d u (acts @ [a]) dfl fm sp)"

text \<open>
  \<open>parser.set_defaults(key=v)\<close>: argparse updates the parser's dictionary of defaults
  and the default of every action already added whose destination is \<open>key\<close>.
\<close>

definition set_defaults :: "string \<Rightarrow> pyval \<Rightarrow> 'f parser \<Rightarrow> 'f parser" where
  "set_defaults key v p =
     (case p of Parser d u acts dfl fm sp \<Rightarrow>
        Parser d u
          (map (\<lambda>a. if dest a = key then a\<lparr>default_value := v\<rparr> else a) acts)
          (AList.update key v dfl) fm
          (map_option (\<lambda>s. case s of Subparsers t ds mv df ch \<Rightarrow>
              Subparsers t ds mv (if ds = key then v else df) ch) sp))"

definition set_func_main :: "'f \<Rightarrow> 'f parser \<Rightarrow> 'f parser" where
  "set_func_main f p = (case p of Parser d u acts dfl fm sp \<Rightarrow> Parser d u acts dfl (Some f) sp)"

definition set_description :: "string option \<Rightarrow> 'f parser \<Rightarrow> 'f parser" where
  "set_description d' p = (case p of Parser d u acts dfl fm sp \<Rightarrow> Parser d' u acts dfl fm sp)"

definition add_subparsers :: "string \<Rightarrow> string \<Rightarrow> string \<Rightarrow> 'f parser \<Rightarrow> 'f parser" where
  "add_subparsers title dst metavar p =
     (case p of Parser d u acts dfl fm sp \<Rightarrow>
        Parser d u acts dfl fm (Some (Subparsers title dst metavar PyNone [])))"

text \<open>
  \<open>p = subparsers.add_parser(name, help=h)\<close> followed by \<open>cmd_parser(p)\<close>: the new child
  starts as a fresh \<open>ArgumentParser\<close> (with the standard help option) and is stored as the
  call of the builder leaves it.
\<close>

definition add_parser :: "string option \<Rightarrow> string option \<Rightarrow> 'f parser \<Rightarrow> 'f parser \<Rightarrow> 'f parser" where
  "add_parser name h child p =
     (case p of Parser d u acts dfl fm sp \<Rightarrow>
        Parser d u acts dfl fm
          (map_option (\<lambda>s. case s of Subparsers t ds mv df ch \<Rightarrow>
              Subparsers t ds mv df (ch @ [(name, h, child)])) sp))"

section \<open>\<open>attach_main\<close>\<close>

text \<open>
  The callback stored by \<open>attach_main\<close> asks the plugin manager for the hook when it is
  called, not when it is stored: it takes the \<open>cmd_call_cmd\<close> implementations that the
  manager holds at the time of the call, in calling order.
\<close>

type_synonym ('a, 's) stored_main = "('a, 's) call_cmd_fn list \<Rightarrow> 'a \<Rightarrow> 's \<Rightarrow> (pyval, 's) outcome"

text \<open>
  \<^verbatim>\<open>
  def attach_main(parser, cmd_main, split_args=False):
      if split_args:
          cmd_main = main_command(cmd_main)
      load_cmd_plugins()
      util.cmd_plugins.cmd_plugin_mgr.hook.cmd_configure_parser(parser=parser)
      def call_main(args):
          return util.cmd_plugins.cmd_plugin_mgr.hook.cmd_call_cmd(cmd_main=cmd_main, args=args, config={})
      parser.description = cmd_main.__doc__
      parser.set_defaults(func_main=call_main)
      return parser
  \<close>
  \<open>main_command\<close> wraps with \<open>util.misc.wraps\<close>, so the adapter has the handler's
  \<open>__doc__\<close>. The result is the parser and the plugin manager as the call leaves them.
\<close>

definition call_main :: "('a, 's) cmd_main \<Rightarrow> ('a, 's) stored_main" where
  "call_main cmd_main impls args = run_first_result impls cmd_main args"

definition attach_main ::
  "('v namespace, 's, ('v namespace, 's) stored_main parser) plugin \<Rightarrow>
   ('v namespace, 's) stored_main parser \<Rightarrow>
   ('v, 's \<Rightarrow> (pyval, 's) outcome) cmd_impl \<Rightarrow> bool \<Rightarrow>
   ('v namespace, 's, ('v namespace, 's) stored_main parser) plugin_mgr \<Rightarrow>
   (exn + ('v namespace, 's) stored_main parser) \<times>
   ('v namespace, 's, ('v namespace, 's) stored_main parser) plugin_mgr" where
  "attach_main metadata parser cmd_main split_args mgr =
     (case (if split_args then main_command cmd_main else Inr (call_args cmd_main)) of
        Inl e \<Rightarrow> (Inl e, mgr)
      | Inr cmd_main' \<Rightarrow>
          (let mgr' = load_cmd_plugins metadata mgr;
               parser1 = hook_cmd_configure_parser mgr' parser;
               parser2 = set_description (doc cmd_main) parser1
           in (Inr (set_func_main (call_main cmd_main') parser2), mgr')))"

section \<open>\<open>make_parser\<close>\<close>

text \<open>
  A parser-construction function of a command list: its \<open>__doc__\<close>, what calling it
  without arguments returns (\<open>commands[0][1]()\<close>) and what calling it on a parser leaves
  in that parser (\<open>cmd_parser(p)\<close>).
\<close>

record 'f builder =
  builder_doc :: "string option"
  build_default :: "'f parser"
  build_on :: "'f parser \<Rightarrow> 'f parser"

text \<open>
  \<^verbatim>\<open>
  help_str = cmd_parser.__doc__ if cmd_parser.__doc__ and len(cmd_parser.__doc__) else None
  if (not help_str) and os.environ.get('READTHEDOCS') or 'sphinx' in sys.modules:
      help_str = "   "
  \<close>
  \<open>and\<close> binds tighter than \<open>or\<close>. An environment variable set to the empty string is
  falsy.
\<close>

definition str_truthy :: "string option \<Rightarrow> bool" where
  "str_truthy x = (case x of None \<Rightarrow> False | Some v \<Rightarrow> v \<noteq> [])"

definition help_str_of :: "world \<Rightarrow> string option \<Rightarrow> string option" where
  "help_str_of w cmd_doc =
     (let help_str = (if str_truthy cmd_doc \<and> (case cmd_doc of None \<Rightarrow> False | Some d \<Rightarrow> length d \<noteq> 0)
                      then cmd_doc else None)
      in if (\<not> str_truthy help_str \<and> str_truthy (map_of (environ w) ''READTHEDOCS''))
            \<or> ''sphinx'' \<in> set (sys_modules w)
         then Some ''   '' else help_str)"

text \<open>
  \<^verbatim>\<open>
  def make_parser(commands, description):
      if len(commands) == 1 and commands[0][0] == None:
          parser = commands[0][1]()
          parser.set_defaults(command='')
      else:
          parser = argparse.ArgumentParser(description=description, usage='%(prog)s subcommand', add_help=False)
          parser.add_argument('--help', '-h', action=_HelpAction, help=argparse.SUPPRESS)
          parser.add_argument('--version', '-V', action='version', version=__version__, help=argparse.SUPPRESS)
          subparsers = parser.add_subparsers(title='subcommands', dest='command', metavar='\033[F')
          for cmd_name, cmd_parser in commands:
              help_str = ...
              p = subparsers.add_parser(cmd_name, help=help_str)
              cmd_parser(p)
      return parser
  \<close>
  \<open>__version__\<close> (from \<open>util.version\<close>, not part of the sources at hand) is a parameter;
  \<open>os.environ\<close> and \<open>sys.modules\<close> are read from the state of the process.
\<close>

definition make_parser ::
  "string \<Rightarrow> world \<Rightarrow> (string option \<times> 'f builder) list \<Rightarrow> string \<Rightarrow> 'f parser" where
  "make_parser ver w commands descr =
     (if length commands = 1 \<and> fst (commands ! 0) = None
      then set_defaults ''command'' (PyStr '''') (build_default (snd (commands ! 0)))
      else
        (let parser0 = ArgumentParser (Some descr) (Some ''%(prog)s subcommand'') False;
             parser1 = add_argument
               \<lparr>option_strings = [''--help'', ''-h''], dest = ''help'', action = EnumeratingHelpAction,
                default_value = PyStr SUPPRESS, arg_help = Some SUPPRESS\<rparr> parser0;
             parser2 = add_argument
               \<lparr>option_strings = [''--version'', ''-V''], dest = ''version'', action = VersionAction ver,
                default_value = PyStr SUPPRESS, arg_help = Some SUPPRESS\<rparr> parser1;
             parser3 = add_subparsers ''subcommands'' ''command'' [CHR 0x1B, CHR ''['', CHR ''F''] parser2
         in fold (\<lambda>(cmd_name, cmd_parser) parser.
                    add_parser cmd_name (help_str_of w (builder_doc cmd_parser))
                      (build_on cmd_parser (ArgumentParser None None True)) parser)
              commands parser3))"

text \<open>The subcommand names of a parser with the help string attached to each.\<close>

definition subparser_helps :: "'f parser \<Rightarrow> (string option \<times> string option) list" where
  "subparser_helps p =
     (case subparsers p of None \<Rightarrow> [] | Some sp \<Rightarrow> map (\<lambda>(n, h, c). (n, h)) (choices sp))"

section \<open>The file system, the logger and string formatting\<close>

text \<open>Sequencing of calls that may raise: the first exception ends the sequence.\<close>

definition and_then :: "('a, 's) outcome \<Rightarrow> ('a \<Rightarrow> 's \<Rightarrow> ('b, 's) outcome) \<Rightarrow> ('b, 's) outcome" where
  "and_then m f = (case m of (Inl e, s) \<Rightarrow> (Inl e, s) | (Inr x, s) \<Rightarrow> f x s)"

text \<open>
  \<open>try: body finally: fin\<close>: the final block runs on every outcome of the body; if it
  raises, its exception replaces the outcome of the body, otherwise the outcome of the body
  stands.
\<close>

definition try_finally ::
  "('s \<Rightarrow> ('a, 's) outcome) \<Rightarrow> ('s \<Rightarrow> (unit, 's) outcome) \<Rightarrow> 's \<Rightarrow> ('a, 's) outcome" where
  "try_finally body fin s =
     (case body s of (r, s1) \<Rightarrow>
        (case fin s1 of (Inl e, s2) \<Rightarrow> (Inl e, s2) | (Inr u, s2) \<Rightarrow> (r, s2)))"

text \<open>\<open>os.path.join\<close> of a directory and a name, and \<open>os.path.basename\<close>.\<close>

definition path_join :: "string \<Rightarrow> string \<Rightarrow> string" where
  "path_join d p =
     (if p \<noteq> [] \<and> hd p = CHR ''/'' then p
      else if d = [] then p
      else if last d = CHR ''/'' then d @ p
      else d @ ''/'' @ p)"

definition basename :: "string \<Rightarrow> string" where
  "basename p = rev (takeWhile (\<lambda>c. c \<noteq> CHR ''/'') (rev p))"

text \<open>\<open>s.rsplit('.', 1)[0]\<close>: what stands before the last dot, or all of \<open>s\<close> without one.\<close>

definition rsplit_dot_head :: "string \<Rightarrow> string" where
  "rsplit_dot_head s =
     (if CHR ''.'' \<in> set s then rev (tl (dropWhile (\<lambda>c. c \<noteq> CHR ''.'') (rev s))) else s)"

text \<open>
  \<^verbatim>\<open>
  def script_name():
      return os.path.basename(sys.argv[0]).rsplit('.', 1)[0]
  \<close>
\<close>

definition script_name :: "world \<Rightarrow> exn + string" where
  "script_name w =
     (case argv w of [] \<Rightarrow> Inl IndexError | a # rest \<Rightarrow> Inr (rsplit_dot_head (basename a)))"

text \<open>
  A path is below a directory when it is the directory or continues it after a slash.
  \<open>shutil.rmtree(p)\<close> removes \<open>p\<close> and everything below it, and raises when \<open>p\<close> does not
  exist.
\<close>

definition is_under :: "string \<Rightarrow> string \<Rightarrow> bool" where
  "is_under d q = (q = d \<or> take (Suc (length d)) q = d @ ''/'')"

definition rmtree :: "string \<Rightarrow> world \<Rightarrow> (unit, world) outcome" where
  "rmtree p w =
     (if p \<in> set (fs w) then (Inr (), w\<lparr>fs := filter (\<lambda>q. \<not> is_under p q) (fs w)\<rparr>)
      else (Inl (FileNotFoundError p), w))"

text \<open>
  \<open>tempfile.mkdtemp(prefix=..., dir=...)\<close>: the directory \<open>dir\<close> must exist; the names drawn
  at random are tried in turn and the first one that makes a path not yet existing is
  created; when all are taken the call raises.
\<close>

definition mkdtemp :: "string list \<Rightarrow> string \<Rightarrow> string \<Rightarrow> world \<Rightarrow> (string, world) outcome" where
  "mkdtemp names pfx dir w =
     (if dir \<notin> set (fs w) then (Inl (FileNotFoundError dir), w)
      else (case find (\<lambda>p. p \<notin> set (fs w)) (map (\<lambda>n. path_join dir (pfx @ n)) names) of
              None \<Rightarrow> (Inl FileExistsError, w)
            | Some p \<Rightarrow> (Inr p, w\<lparr>fs := fs w @ [p]\<rparr>)))"

text \<open>A call \<open>log.info(fmt, *args)\<close> or \<open>log.debug(fmt, *args)\<close> on the root logger.\<close>

definition log_call :: "string \<Rightarrow> string \<Rightarrow> pyval list \<Rightarrow> world \<Rightarrow> world" where
  "log_call lvl fmt fmt_args w = w\<lparr>log_calls := log_calls w @ [(lvl, fmt, fmt_args)]\<rparr>"

text \<open>\<open>str.upper\<close> on ASCII, and the level constants of the \<open>logging\<close> module.\<close>

definition upper_char :: "char \<Rightarrow> char" where
  "upper_char c =
     (let n = (of_char c :: nat) in if 97 \<le> n \<and> n \<le> 122 then char_of (n - 32) else c)"

definition logging_level :: "string \<Rightarrow> int option" where
  "logging_level name =
     map_of [(''CRITICAL'', 50), (''FATAL'', 50), (''ERROR'', 40), (''WARNING'', 30),
             (''WARN'', 30), (''INFO'', 20), (''DEBUG'', 10), (''NOTSET'', 0)] name"

text \<open>
  \<^verbatim>\<open>
  def setup_logger(log_level):
      loglevel = getattr(logging, log_level.upper(), None)
      assert loglevel, "unrecognized log level: %s" % log_level
      log.setLevel(loglevel)
      h = logging.StreamHandler()
      h.setFormatter(...)
      log.addHandler(h)
  \<close>
  Of the attributes of \<open>logging\<close> only the level constants are modelled; a value that is
  not a string has no \<open>upper\<close>.
\<close>

definition setup_logger :: "pyval \<Rightarrow> world \<Rightarrow> (unit, world) outcome" where
  "setup_logger lvl w =
     (case lvl of
        PyStr s \<Rightarrow>
          (case logging_level (map upper_char s) of
             None \<Rightarrow> (Inl (AssertionError (''unrecognized log level: '' @ s)), w)
           | Some n \<Rightarrow>
               if n = 0 then (Inl (AssertionError (''unrecognized log level: '' @ s)), w)
               else (Inr (), w\<lparr>log_level := n, log_handlers := Suc (log_handlers w)\<rparr>))
      | _ \<Rightarrow> (Inl (AttributeError ''upper''), w))"

text \<open>\<open>'%s' % v\<close>: Python's \<open>str\<close> of a value.\<close>

fun digits :: "nat \<Rightarrow> string" where
  "digits n =
     (if n < 10 then [char_of (48 + n)] else digits (n div 10) @ [char_of (48 + n mod 10)])"

fun py_str :: "pyval \<Rightarrow> string" where
  "py_str PyNone = ''None''"
| "py_str (PyBool b) = (if b then ''True'' else ''False'')"
| "py_str (PyInt i) = (if i < 0 then ''-'' @ digits (nat (- i)) else digits (nat i))"
| "py_str (PyStr s) = s"

fun join_with :: "string \<Rightarrow> string list \<Rightarrow> string" where
  "join_with sep [] = []"
| "join_with sep [x] = x"
| "join_with sep (x # y # ys) = x @ sep @ join_with sep (y # ys)"

section \<open>\<open>main_argparse\<close>\<close>

text \<open>
  The namespace that \<open>parse_args\<close> returns: its attributes other than \<open>func_main\<close>, and
  the callback \<open>func_main\<close> if the namespace has one. The callback receives the namespace.
\<close>

record parsed_args =
  attrs :: "pyval namespace"
  attr_func_main :: "(pyval namespace \<Rightarrow> world \<Rightarrow> (pyval, world) outcome) option"

text \<open>
  What \<open>main_argparse\<close> takes from outside the sources at hand: \<open>__version__\<close>,
  \<open>sys.version\<close>, \<open>util.file.keep_tmp()\<close>, the default directory of \<open>tempfile\<close> (used
  when \<open>args.tmp_dir\<close> is \<open>None\<close>), the names that \<open>tempfile\<close> draws at random, and
  \<open>parser.parse_args\<close> of argparse, which returns a namespace or exits, and may print.
\<close>

record 'f lib =
  lib_version :: string
  sys_version :: string
  keep_tmp :: "world \<Rightarrow> bool"
  gettempdir :: "world \<Rightarrow> string"
  random_names :: "string list"
  parse_args :: "'f parser \<Rightarrow> string list \<Rightarrow> world \<Rightarrow> (parsed_args, world) outcome"

definition hasattr :: "pyval namespace \<Rightarrow> string \<Rightarrow> bool" where
  "hasattr a k = (map_of a k \<noteq> None)"

definition getattr :: "pyval namespace \<Rightarrow> string \<Rightarrow> exn + pyval" where
  "getattr a k = (case map_of a k of None \<Rightarrow> Inl (AttributeError k) | Some v \<Rightarrow> Inr v)"

text \<open>
  Lines 213 to 216: the forced help.
  \<^verbatim>\<open>
  if len(sys.argv) == 1:
      parser.parse_args(['--help'])
  elif len(sys.argv) == 2 and (len(commands) > 1 or commands[0][0] != None):
      parser.parse_args([sys.argv[1], '--help'])
  \<close>
  \<open>help_args\<close> is the argument list that is parsed there, if any; \<open>commands[0]\<close> on an
  empty list raises.
\<close>

definition help_args :: "(string option \<times> 'b) list \<Rightarrow> string list \<Rightarrow> exn + string list option" where
  "help_args commands av =
     (if length av = 1 then Inr (Some [''--help''])
      else if length av = 2 then
        (if length commands > 1 then Inr (Some [av ! 1, ''--help''])
         else if commands = [] then Inl IndexError
         else if fst (commands ! 0) \<noteq> None then Inr (Some [av ! 1, ''--help''])
         else Inr None)
      else Inr None)"

definition forced_help ::
  "'f lib \<Rightarrow> 'f parser \<Rightarrow> (string option \<times> 'b) list \<Rightarrow> world \<Rightarrow> (unit, world) outcome" where
  "forced_help lib parser commands w =
     (case help_args commands (argv w) of
        Inl e \<Rightarrow> (Inl e, w)
      | Inr None \<Rightarrow> (Inr (), w)
      | Inr (Some a) \<Rightarrow> and_then (parse_args lib parser a w) (\<lambda>ignored w1. (Inr (), w1)))"

text \<open>
  Lines 217 to 222: the parse of \<open>sys.argv[1:]\<close>, the logger and the two log lines.
  \<^verbatim>\<open>
  args = parser.parse_args()
  setup_logger(not hasattr(args, 'loglevel') and 'DEBUG' or args.loglevel)
  log.info("software version: %s, python version: %s", __version__, sys.version)
  log.info("command: %s %s %s", sys.argv[0], sys.argv[1],
           ' '.join(["%s=%s" % (k, v) for k, v in vars(args).items() if k not in ('command', 'func_main')]))
  \<close>
\<close>

definition parse_and_log :: "'f lib \<Rightarrow> 'f parser \<Rightarrow> world \<Rightarrow> (parsed_args, world) outcome" where
  "parse_and_log lib parser w =
     and_then (parse_args lib parser (drop 1 (argv w)) w) (\<lambda>args w1.
     and_then (setup_logger (case map_of (attrs args) ''loglevel'' of
                               None \<Rightarrow> PyStr ''DEBUG'' | Some v \<Rightarrow> v) w1) (\<lambda>u w2.
       (let w3 = log_call ''INFO'' ''software version: %s, python version: %s''
                    [PyStr (lib_version lib), PyStr (sys_version lib)] w2
        in if length (argv w3) < 2 then (Inl IndexError, w3)
           else (Inr args,
                 log_call ''INFO'' ''command: %s %s %s''
                   [PyStr (argv w3 ! 0), PyStr (argv w3 ! 1),
                    PyStr (join_with '' ''
                      (map (\<lambda>(k, v). k @ ''='' @ py_str v)
                         (filter (\<lambda>(k, v). k \<noteq> ''command'' \<and> k \<noteq> ''func_main'') (attrs args))))]
                   w3))))"

text \<open>
  Lines 229 to 234: the name proposed for the scoped directory.
  \<^verbatim>\<open>
  proposed_dir = 'tmp-%s-%s' % (script_name(), args.command)
  for e in ('LSB_JOBID', 'JOB_ID'):
      if e in os.environ:
          proposed_dir = 'tmp-%s-%s-%s-%s' % (script_name(), args.command, os.environ[e],
                                              os.environ.get('LSB_JOBINDEX','0'))
          break
  \<close>
\<close>

definition proposed_dir :: "string \<Rightarrow> pyval \<Rightarrow> world \<Rightarrow> string" where
  "proposed_dir script command w =
     (let plain = ''tmp-'' @ script @ ''-'' @ py_str command;
          idx = (case map_of (environ w) ''LSB_JOBINDEX'' of None \<Rightarrow> ''0'' | Some i \<Rightarrow> i)
      in case map_of (environ w) ''LSB_JOBID'' of
           Some j \<Rightarrow> plain @ ''-'' @ j @ ''-'' @ idx
         | None \<Rightarrow>
             (case map_of (environ w) ''JOB_ID'' of
                Some j \<Rightarrow> plain @ ''-'' @ j @ ''-'' @ idx
              | None \<Rightarrow> plain))"

text \<open>
  Lines 229 to 237: the scoped directory is made and published.
  \<^verbatim>\<open>
  tempfile.tempdir = tempfile.mkdtemp(prefix='%s-' % proposed_dir, dir=args.tmp_dir)
  log.debug("using tempDir: %s", tempfile.tempdir)
  os.environ['TMPDIR'] = tempfile.tempdir
  \<close>
  The result is the path of the directory and the value of \<open>args.command\<close>.
\<close>

definition enter_tmp_dir :: "'f lib \<Rightarrow> parsed_args \<Rightarrow> world \<Rightarrow> (string \<times> pyval, world) outcome" where
  "enter_tmp_dir lib args w =
     (case script_name w of
        Inl e \<Rightarrow> (Inl e, w)
      | Inr script \<Rightarrow>
     (case getattr (attrs args) ''command'' of
        Inl e \<Rightarrow> (Inl e, w)
      | Inr command \<Rightarrow>
     (case getattr (attrs args) ''tmp_dir'' of
        Inl e \<Rightarrow> (Inl e, w)
      | Inr (PyStr dir) \<Rightarrow>
          and_then (mkdtemp (random_names lib) (proposed_dir script command w @ ''-'') dir w)
            (\<lambda>d w1. (Inr (d, command),
               (log_call ''DEBUG'' ''using tempDir: %s'' [PyStr d] (w1\<lparr>tempdir := Some d\<rparr>))
                 \<lparr>environ := AList.update ''TMPDIR'' d (environ w1)\<rparr>))
      | Inr PyNone \<Rightarrow>
          and_then (mkdtemp (random_names lib) (proposed_dir script command w @ ''-'') (gettempdir lib w) w)
            (\<lambda>d w1. (Inr (d, command),
               (log_call ''DEBUG'' ''using tempDir: %s'' [PyStr d] (w1\<lparr>tempdir := Some d\<rparr>))
                 \<lparr>environ := AList.update ''TMPDIR'' d (environ w1)\<rparr>))
      | Inr other \<Rightarrow> (Inl TypeError, w))))"

text \<open>
  Lines 241 to 245, the \<open>finally\<close> block. \<open>tempfile.tempdir\<close> is read when the block
  runs.
  \<^verbatim>\<open>
  if (hasattr(args, 'tmp_dirKeep') and args.tmp_dirKeep) or util.file.keep_tmp():
      log.debug("After running %s, saving tmp_dir at %s", args.command, tempfile.tempdir)
  else:
      shutil.rmtree(tempfile.tempdir)
  \<close>
\<close>

definition keep_requested :: "'f lib \<Rightarrow> parsed_args \<Rightarrow> world \<Rightarrow> bool" where
  "keep_requested lib args w =
     ((case map_of (attrs args) ''tmp_dirKeep'' of None \<Rightarrow> False | Some v \<Rightarrow> truthy v)
      \<or> keep_tmp lib w)"

definition leave_tmp_dir :: "'f lib \<Rightarrow> parsed_args \<Rightarrow> pyval \<Rightarrow> world \<Rightarrow> (unit, world) outcome" where
  "leave_tmp_dir lib args command w =
     (if keep_requested lib args w
      then (Inr (), log_call ''DEBUG'' ''After running %s, saving tmp_dir at %s''
                      [command, (case tempdir w of None \<Rightarrow> PyNone | Some d \<Rightarrow> PyStr d)] w)
      else (case tempdir w of None \<Rightarrow> (Inl TypeError, w) | Some d \<Rightarrow> rmtree d w))"

text \<open>\<open>args.func_main(args)\<close>.\<close>

definition call_func_main :: "parsed_args \<Rightarrow> world \<Rightarrow> (pyval, world) outcome" where
  "call_func_main args w =
     (case attr_func_main args of
        None \<Rightarrow> (Inl (AttributeError ''func_main''), w)
      | Some f \<Rightarrow> f (attrs args) w)"

text \<open>
  Lines 224 to 248: the command is run, inside the scoped directory when the namespace
  has \<open>tmp_dir\<close>.
  \<^verbatim>\<open>
  if hasattr(args, 'tmp_dir'):
      ...
      try:
          ret = args.func_main(args)
      finally:
          ...
  else:
      ret = args.func_main(args)
  \<close>
\<close>

definition run_command :: "'f lib \<Rightarrow> parsed_args \<Rightarrow> world \<Rightarrow> (pyval, world) outcome" where
  "run_command lib args w =
     (if hasattr (attrs args) ''tmp_dir''
      then and_then (enter_tmp_dir lib args w)
             (\<lambda>(d, command). try_finally (call_func_main args) (leave_tmp_dir lib args command))
      else call_func_main args w)"

text \<open>
  Lines 217 to 251: everything after the forced help.
  \<^verbatim>\<open>
  if ret is None:
      ret = 0
  return ret
  \<close>
\<close>

definition main_after_help :: "'f lib \<Rightarrow> 'f parser \<Rightarrow> world \<Rightarrow> (pyval, world) outcome" where
  "main_after_help lib parser w =
     and_then (parse_and_log lib parser w) (\<lambda>args w1.
     and_then (run_command lib args w1) (\<lambda>ret w2.
       (Inr (if ret = PyNone then PyInt 0 else ret), w2)))"

text \<open>
  \<^verbatim>\<open>
  def main_argparse(commands, description):
      parser = make_parser(commands, description)
      ...
  \<close>
\<close>

definition main_argparse ::
  "'f lib \<Rightarrow> (string option \<times> 'f builder) list \<Rightarrow> string \<Rightarrow> world \<Rightarrow> (pyval, world) outcome" where
  "main_argparse lib commands descr w =
     (let parser = make_parser (lib_version lib) w commands descr
      in and_then (forced_help lib parser commands w) (\<lambda>u w1. main_after_help lib parser w1))"

text \<open>
  Lines 210 to 222 taken together: from the command list to the parsed arguments with
  which the command is run.
\<close>

definition prepare ::
  "'f lib \<Rightarrow> (string option \<times> 'f builder) list \<Rightarrow> string \<Rightarrow> world \<Rightarrow> (parsed_args, world) outcome" where
  "prepare lib commands descr w =
     (let parser = make_parser (lib_version lib) w commands descr
      in and_then (forced_help lib parser commands w) (\<lambda>u w1. parse_and_log lib parser w1))"

text \<open>Lines 249 to 251 applied to the outcome of the command.\<close>

definition exit_status :: "exn + pyval \<Rightarrow> exn + pyval" where
  "exit_status r = (case r of Inl e \<Rightarrow> Inl e | Inr ret \<Rightarrow> Inr (if ret = PyNone then PyInt 0 else ret))"

section \<open>A reading of \<open>parse_args\<close> for running \<open>main_argparse\<close> on command lines\<close>

text \<open>
  argparse is outside the sources at hand and \<open>main_argparse\<close> takes it as a parameter.
  To run \<open>main_argparse\<close> on concrete command lines, this is how argparse treats a
  command line made of flags it knows, flags it does not know and subcommand names: the
  arguments are consumed from left to right; a known flag performs its action at once
  (help and version print and exit with status 0, \<open>store_true\<close> sets its destination,
  \<open>store\<close> takes the next argument); an unknown flag is set aside; a word that is not a
  flag must be a subcommand name, or the parser exits with status 2, and hands the rest
  of the line to the child parser, whose defaults (with its \<open>func_main\<close>) enter the
  namespace; flags set aside make the parser exit with status 2 at the end.
\<close>

type_synonym world_main = "pyval namespace \<Rightarrow> world \<Rightarrow> (pyval, world) outcome"

fun lookup_option :: "string \<Rightarrow> argument list \<Rightarrow> argument option" where
  "lookup_option t [] = None"
| "lookup_option t (a # rest) = (if t \<in> set (option_strings a) then Some a else lookup_option t rest)"

fun lookup_choice :: "string \<Rightarrow> (string option \<times> string option \<times> 'f parser) list \<Rightarrow> 'f parser option" where
  "lookup_choice t [] = None"
| "lookup_choice t ((n, h, c) # rest) = (if n = Some t then Some c else lookup_choice t rest)"

definition initial_attrs :: "'f parser \<Rightarrow> pyval namespace \<Rightarrow> pyval namespace" where
  "initial_attrs p a =
     (let with_actions =
            fold (\<lambda>x acc. if default_value x = PyStr SUPPRESS \<or> map_of acc (dest x) \<noteq> None then acc
                          else acc @ [(dest x, default_value x)]) (actions p) a;
          with_dispatch =
            (case subparsers p of
               None \<Rightarrow> with_actions
             | Some sp \<Rightarrow> if map_of with_actions (sp_dest sp) \<noteq> None then with_actions
                          else with_actions @ [(sp_dest sp, sp_default sp)])
      in fold (\<lambda>(k, v) acc. if map_of acc k \<noteq> None then acc else acc @ [(k, v)])
           (defaults p) with_dispatch)"

fun consume_args ::
  "world_main parser \<Rightarrow> string list \<Rightarrow> string list \<Rightarrow> parsed_args \<Rightarrow> world \<Rightarrow>
   (parsed_args \<times> string list, world) outcome" where
  "consume_args p [] extras acc w = (Inr (acc, extras), w)"
| "consume_args p (t # ts) extras acc w =
     (if t \<noteq> [] \<and> hd t = CHR ''-'' then
        (case lookup_option t (actions p) of
           None \<Rightarrow> consume_args p ts (extras @ [t]) acc w
         | Some a \<Rightarrow>
             (case action a of
                HelpAction \<Rightarrow> (Inl (SystemExit 0), w\<lparr>console := console w @ [HelpShown]\<rparr>)
              | EnumeratingHelpAction \<Rightarrow>
                  (Inl (SystemExit 0), w\<lparr>console := console w @ [EnumeratedHelpShown, HelpShown]\<rparr>)
              | VersionAction v \<Rightarrow> (Inl (SystemExit 0), w\<lparr>console := console w @ [VersionShown v]\<rparr>)
              | StoreTrueAction \<Rightarrow>
                  consume_args p ts extras
                    (acc\<lparr>attrs := AList.update (dest a) (PyBool True) (attrs acc)\<rparr>) w
              | StoreAction \<Rightarrow>
                  (case ts of
                     [] \<Rightarrow> (Inl (SystemExit 2), w\<lparr>console := console w @ [UsageError ''expected one argument'']\<rparr>)
                   | v # ts' \<Rightarrow>
                       consume_args p ts' extras
                         (acc\<lparr>attrs := AList.update (dest a) (PyStr v) (attrs acc)\<rparr>) w)))
      else
        (case subparsers p of
           None \<Rightarrow> consume_args p ts (extras @ [t]) acc w
         | Some sp \<Rightarrow>
             (case lookup_choice t (choices sp) of
                None \<Rightarrow> (Inl (SystemExit 2), w\<lparr>console := console w @ [UsageError ''invalid choice'']\<rparr>)
              | Some child \<Rightarrow>
                  consume_args child ts extras
                    \<lparr>attrs = AList.update (sp_dest sp) (PyStr t) (attrs acc)
                              @ filter (\<lambda>(k, v). map_of (AList.update (sp_dest sp) (PyStr t) (attrs acc)) k = None)
                                  (initial_attrs child []),
                     attr_func_main = (case func_main child of None \<Rightarrow> attr_func_main acc | Some f \<Rightarrow> Some f)\<rparr>
                    w)))"

definition argparse_parse_args ::
  "world_main parser \<Rightarrow> string list \<Rightarrow> world \<Rightarrow> (parsed_args, world) outcome" where
  "argparse_parse_args p line w =
     and_then (consume_args p line [] \<lparr>attrs = initial_attrs p [], attr_func_main = func_main p\<rparr> w)
       (\<lambda>(acc, extras) w1.
          if extras \<noteq> [] then (Inl (SystemExit 2), w1\<lparr>console := console w1 @ [UsageError ''unrecognized arguments'']\<rparr>)
          else (Inr acc, w1))"

section \<open>Example inputs\<close>

definition example_world :: world where
  "example_world =
     \<lparr>argv = [''/opt/viral-ngs/assembly.py''], environ = [], sys_modules = [], fs = [''/tmp''],
      tempdir = None, log_level = 30, log_handlers = 0, log_calls = [], console = []\<rparr>"

definition example_lib :: "world_main lib" where
  "example_lib =
     \<lparr>lib_version = ''1.25.0'', sys_version = ''3.6.9'', keep_tmp = (\<lambda>w. False),
      gettempdir = (\<lambda>w. ''/tmp''), random_names = [''k3x0q9ab''],
      parse_args = argparse_parse_args\<rparr>"

text \<open>
  A builder as the commands of the repository write them: it adds \<open>--tmp_dir\<close> and
  \<open>--tmp_dirKeep\<close> (as \<open>common_args\<close> does) and attaches a command.
\<close>

definition example_builder :: "string option \<Rightarrow> world_main \<Rightarrow> world_main builder" where
  "example_builder d f =
     (let populate = (\<lambda>p. set_func_main f
            (add_argument \<lparr>option_strings = [''--tmp_dirKeep''], dest = ''tmp_dirKeep'',
                           action = StoreTrueAction, default_value = PyBool False, arg_help = None\<rparr>
            (add_argument \<lparr>option_strings = [''--tmp_dir''], dest = ''tmp_dir'',
                           action = StoreAction, default_value = PyStr ''/tmp'', arg_help = None\<rparr> p)))
      in \<lparr>builder_doc = d, build_default = populate (ArgumentParser None None True),
          build_on = populate\<rparr>)"

text \<open>A builder that adds \<open>--loglevel\<close> only (no \<open>tmp_dir\<close> option) and attaches a command.\<close>

definition plain_builder :: "string option \<Rightarrow> world_main \<Rightarrow> world_main builder" where
  "plain_builder d f =
     (let populate = (\<lambda>p. set_func_main f
            (add_argument \<lparr>option_strings = [''--loglevel''], dest = ''loglevel'',
                           action = StoreAction, default_value = PyStr ''INFO'', arg_help = None\<rparr> p))
      in \<lparr>builder_doc = d, build_default = populate (ArgumentParser None None True),
          build_on = populate\<rparr>)"

text \<open>
  Three commands: one writes a file into the scoped directory and returns \<open>None\<close>, one
  writes the file and then fails on its input, one returns the status 3.
\<close>

definition writing_command :: world_main where
  "writing_command a w =
     (Inr PyNone, w\<lparr>fs := fs w @ [path_join (case tempdir w of None \<Rightarrow> [] | Some d \<Rightarrow> d) ''reads.bam'']\<rparr>)"

definition failing_command :: world_main where
  "failing_command a w =
     (Inl (BadInputError ''no reads''),
      w\<lparr>fs := fs w @ [path_join (case tempdir w of None \<Rightarrow> [] | Some d \<Rightarrow> d) ''reads.bam'']\<rparr>)"

definition status_command :: world_main where
  "status_command a w = (Inr (PyInt 3), w)"




definition example_commands :: "(string option \<times> world_main builder) list" where
  "example_commands =
     [(Some ''assemble'', example_builder (Some ''Assemble reads.'') writing_command),
      (Some ''fail'', example_builder None failing_command),
      (Some ''status'', plain_builder None status_command)]"

definition example_metadata :: "(pyval namespace, nat, (pyval namespace, nat) stored_main parser) plugin" where
  "example_metadata =
     \<lparr>plugin_name = ''util.metadata'', call_cmd_impl = None, handle_file_arg_impl = None,
      configure_parser_impl = None\<rparr>"

definition example_handler :: "(pyval, nat \<Rightarrow> (pyval, nat) outcome) cmd_impl" where
  "example_handler =
     \<lparr>doc = Some ''Count the arguments.'', argspec_args = [''a'', ''c''], argspec_varargs = None,
      argspec_keywords = None,
      call_kw = (\<lambda>kw s. (Inr (PyInt (int (length kw))), Suc s)),
      call_args = (\<lambda>ns s. (Inr (PyInt (int (length ns))), Suc s))\<rparr>"

section \<open>Properties of \<open>check_input\<close> and \<open>main_command\<close>\<close>

lemma dict_subset_keys: "fst ` set (dict_subset d keys) = fst ` set d \<inter> set keys"
  by (auto simp: dict_subset_def image_iff)

text \<open>
  C3. For a handler without variadic parameters, the adapter built by \<open>main_command\<close>
  calls the handler with exactly the namespace entries whose names are among the handler's
  declared parameter names: the keyword arguments are the namespace filtered by those
  names, so their names are the intersection of the two name sets, and each keeps its
  namespace value.
\<close>

theorem main_command_selects_declared:
  assumes "argspec_varargs h = None" and "argspec_keywords h = None"
  shows "\<exists>adapter. main_command h = Inr adapter \<and>
           (\<forall>ns. adapter ns = call_kw h (filter (\<lambda>(k, v). k \<in> set (argspec_args h)) ns)) \<and>
           (\<forall>ns. fst ` set (dict_subset ns (argspec_args h)) = fst ` set ns \<inter> set (argspec_args h))"
proof -
  let ?adapter = "\<lambda>ns. call_kw h (dict_subset ns (argspec_args h))"
  have "main_command h = Inr ?adapter"
    using assms by (simp add: main_command_def)
  moreover have "\<forall>ns. ?adapter ns = call_kw h (filter (\<lambda>(k, v). k \<in> set (argspec_args h)) ns)"
    by (simp add: dict_subset_def)
  ultimately show ?thesis
    using dict_subset_keys by blast
qed

theorem main_command_selects_declared_witness:
  "\<exists>adapter.
     main_command \<lparr>doc = None, argspec_args = [''a'', ''c''], argspec_varargs = None,
                   argspec_keywords = None, call_kw = (\<lambda>kw. kw), call_args = (\<lambda>kw. kw)\<rparr> = Inr adapter \<and>
     adapter [(''a'', PyInt 1), (''b'', PyInt 2), (''c'', PyInt 3), (''command'', PyStr ''x'')]
       = [(''a'', PyInt 1), (''c'', PyInt 3)]"
  using main_command_selects_declared
    [of "\<lparr>doc = None, argspec_args = [''a'', ''c''], argspec_varargs = None,
          argspec_keywords = None, call_kw = (\<lambda>kw. kw), call_args = (\<lambda>kw. kw)\<rparr>"]
  by auto

text \<open>
  C4. A handler that declares a \<open>*args\<close> or a \<open>**kwargs\<close> parameter makes
  \<open>main_command\<close> itself fail with the assertion error, so no adapter is returned that
  could fail later; for every other handler \<open>main_command\<close> returns an adapter.
\<close>

theorem main_command_rejects_variadic:
  "(argspec_varargs h \<noteq> None \<or> argspec_keywords h \<noteq> None \<longrightarrow>
      main_command h = Inl (AssertionError ''Command impls with *args or **kwargs not supported''))
   \<and> (argspec_varargs h = None \<and> argspec_keywords h = None \<longrightarrow>
      (\<exists>adapter. main_command h = Inr adapter))"
  by (auto simp: main_command_def)

theorem main_command_rejects_variadic_witness:
  "main_command \<lparr>doc = None, argspec_args = [''a''], argspec_varargs = Some ''rest'',
                 argspec_keywords = None, call_kw = (\<lambda>kw. length kw), call_args = (\<lambda>kw. length kw)\<rparr>
     = Inl (AssertionError ''Command impls with *args or **kwargs not supported'')
   \<and> (\<exists>adapter. main_command \<lparr>doc = None, argspec_args = [''a''], argspec_varargs = None,
                 argspec_keywords = None, call_kw = (\<lambda>kw. length kw), call_args = (\<lambda>kw. length kw)\<rparr> = Inr adapter)"
  using main_command_rejects_variadic
    [of "\<lparr>doc = None, argspec_args = [''a''], argspec_varargs = Some ''rest'',
          argspec_keywords = None, call_kw = (\<lambda>kw. length kw), call_args = (\<lambda>kw. length kw)\<rparr>"]
    main_command_rejects_variadic
    [of "\<lparr>doc = None, argspec_args = [''a''], argspec_varargs = None,
          argspec_keywords = None, call_kw = (\<lambda>kw. length kw), call_args = (\<lambda>kw. length kw)\<rparr>"]
  by simp

text \<open>
  C10. \<open>check_input\<close> raises \<open>BadInputError\<close> with exactly the given message if and only
  if the condition is falsy, returns \<open>None\<close> if and only if it is truthy, and never
  changes the state.
\<close>

theorem check_input_raises_iff:
  "(fst (check_input c msg s) = Inl (BadInputError msg)) = (\<not> truthy c)
   \<and> (fst (check_input c msg s) = Inr PyNone) = truthy c
   \<and> snd (check_input c msg s) = s"
  by (simp add: check_input_def)

theorem check_input_raises_iff_witness:
  "fst (check_input (PyStr []) ''empty sample name'' (0::nat)) = Inl (BadInputError ''empty sample name'')
   \<and> fst (check_input (PyInt 3) ''empty sample name'' (0::nat)) = Inr PyNone
   \<and> snd (check_input (PyInt 0) ''empty sample name'' (7::nat)) = 7"
  using check_input_raises_iff [of "PyStr []" "''empty sample name''" "0::nat"]
    check_input_raises_iff [of "PyInt 3" "''empty sample name''" "0::nat"]
    check_input_raises_iff [of "PyInt 0" "''empty sample name''" "7::nat"]
  by simp

section \<open>Properties of the plugin manager and the dispatch\<close>

lemma run_first_result_builtin:
  "run_first_result [cmd_call_cmd] handler args s = handler args s"
  by (simp add: cmd_call_cmd_def split: prod.splits sum.splits)

lemma hook_impls_single:
  "List.map_filter sel mgr = [(t, i)] \<Longrightarrow> hook_impls sel mgr = [i]"
  by (cases t) (simp_all add: hook_impls_def)

lemma func_main_set_func_main: "func_main (set_func_main f p) = Some f"
  by (cases p) (simp add: set_func_main_def)

text \<open>
  C2. When the only \<open>cmd_call_cmd\<close> implementation held by the plugin manager is the
  built-in one, the hook called with a handler and parsed arguments returns exactly what
  the handler returns on these arguments (result or exception, and state); and the
  \<open>func_main\<close> callback that \<open>attach_main\<close> stores, called under such a manager, returns
  what the attached handler returns (the handler itself, or its \<open>main_command\<close> adapter when
  \<open>split_args\<close> is set).
\<close>

theorem call_command_default:
  assumes "List.map_filter call_cmd_impl mgr = [(True, cmd_call_cmd)]"
  shows "hook_cmd_call_cmd mgr handler args s = handler args s
    \<and> (\<forall>p mgr1. attach_main metadata parser cm split_args mgr0 = (Inr p, mgr1) \<longrightarrow>
          (\<exists>f. func_main p = Some f \<and>
               f (hook_impls call_cmd_impl mgr) args s =
                 (if split_args then call_kw cm (dict_subset args (argspec_args cm))
                  else call_args cm args) s))"
proof -
  have impls: "hook_impls call_cmd_impl mgr = [cmd_call_cmd]"
    using assms by (rule hook_impls_single)
  have first: "hook_cmd_call_cmd mgr handler args s = handler args s"
    by (simp only: hook_cmd_call_cmd_def impls run_first_result_builtin)
  have second: "\<exists>f. func_main p = Some f \<and>
               f (hook_impls call_cmd_impl mgr) args s =
                 (if split_args then call_kw cm (dict_subset args (argspec_args cm))
                  else call_args cm args) s"
    if att: "attach_main metadata parser cm split_args mgr0 = (Inr p, mgr1)" for p mgr1
  proof (cases split_args)
    case False
    with att have "func_main p = Some (call_main (call_args cm))"
      by (auto simp: attach_main_def Let_def func_main_set_func_main)
    then show ?thesis
      using False by (simp only: call_main_def impls run_first_result_builtin if_True if_False simp_thms option.inject ex_simps)
  next
    case True
    with att have "func_main p =
        Some (call_main (\<lambda>args. call_kw cm (dict_subset args (argspec_args cm))))"
      by (auto simp: attach_main_def Let_def func_main_set_func_main main_command_def
               split: if_splits)
    then show ?thesis
      using True by (simp only: call_main_def impls run_first_result_builtin if_True if_False simp_thms option.inject ex_simps)
  qed
  from first second show ?thesis by blast
qed

text \<open>
  C9. \<open>load_cmd_plugins\<close> registers its two plugins only into an empty plugin manager and
  leaves a non-empty one as it is; calling it twice gives the same plugin manager as
  calling it once.
\<close>

theorem load_cmd_plugins_idempotent:
  "load_cmd_plugins metadata (load_cmd_plugins metadata mgr) = load_cmd_plugins metadata mgr
   \<and> (mgr \<noteq> [] \<longrightarrow> load_cmd_plugins metadata mgr = mgr)
   \<and> (mgr = [] \<longrightarrow> plugin_name ` set (load_cmd_plugins metadata mgr)
                     = {''util.cmd'', plugin_name metadata})"
  by (auto simp: load_cmd_plugins_def list_name_plugin_def register_def this_module_def)

section \<open>Properties of \<open>make_parser\<close>\<close>

lemma subparser_helps_add_parser:
  "subparsers p \<noteq> None \<Longrightarrow>
   subparsers (add_parser n h c p) \<noteq> None \<and>
   subparser_helps (add_parser n h c p) = subparser_helps p @ [(n, h)]"
  by (cases p) (auto simp: add_parser_def subparser_helps_def split: subparsers.splits)

lemma subparser_helps_fold:
  "subparsers p \<noteq> None \<Longrightarrow>
   subparser_helps (fold (\<lambda>(n, b) q. add_parser n (h b) (c b) q) cmds p)
     = subparser_helps p @ map (\<lambda>(n, b). (n, h b)) cmds"
proof (induction cmds arbitrary: p)
  case Nil
  then show ?case by simp
next
  case (Cons x cmds)
  obtain n b where x: "x = (n, b)" by (cases x)
  from Cons.prems have step: "subparsers (add_parser n (h b) (c b) p) \<noteq> None"
    and helps: "subparser_helps (add_parser n (h b) (c b) p) = subparser_helps p @ [(n, h b)]"
    using subparser_helps_add_parser by blast+
  show ?case
    using Cons.IH [OF step] by (simp add: x helps)
qed

lemma parser_sel_set_defaults:
  "description (set_defaults k v p) = description p"
  "usage (set_defaults k v p) = usage p"
  "func_main (set_defaults k v p) = func_main p"
  "map option_strings (actions (set_defaults k v p)) = map option_strings (actions p)"
  "map action (actions (set_defaults k v p)) = map action (actions p)"
  "map dest (actions (set_defaults k v p)) = map dest (actions p)"
  "map_option choices (subparsers (set_defaults k v p)) = map_option choices (subparsers p)"
  "map_of (defaults (set_defaults k v p)) = (map_of (defaults p))(k \<mapsto> v)"
  by (cases p; auto simp: set_defaults_def update_conv' option.map_comp comp_def
        split: subparsers.splits option.splits intro!: option.map_cong)+

text \<open>
  C5. For a command list of exactly one descriptor whose name is \<open>None\<close>, \<open>make_parser\<close>
  returns the parser that the descriptor's builder returns, with \<open>set_defaults(command='')\<close>
  applied and nothing else: the description, the usage, the callback, the options (their
  option strings, kinds and destinations) and the subcommand choices, if any, are those of
  the builder's parser, and the defaults are the builder's with \<open>command\<close> set to the
  empty string.
\<close>

theorem make_parser_single_unnamed:
  "make_parser ver w [(None, b)] descr = set_defaults ''command'' (PyStr '''') (build_default b)
   \<and> description (make_parser ver w [(None, b)] descr) = description (build_default b)
   \<and> usage (make_parser ver w [(None, b)] descr) = usage (build_default b)
   \<and> func_main (make_parser ver w [(None, b)] descr) = func_main (build_default b)
   \<and> map option_strings (actions (make_parser ver w [(None, b)] descr))
       = map option_strings (actions (build_default b))
   \<and> map action (actions (make_parser ver w [(None, b)] descr))
       = map action (actions (build_default b))
   \<and> map dest (actions (make_parser ver w [(None, b)] descr))
       = map dest (actions (build_default b))
   \<and> map_option choices (subparsers (make_parser ver w [(None, b)] descr))
       = map_option choices (subparsers (build_default b))
   \<and> map_of (defaults (make_parser ver w [(None, b)] descr))
       = (map_of (defaults (build_default b)))(''command'' \<mapsto> PyStr '''')"
proof -
  have "make_parser ver w [(None, b)] descr
          = set_defaults ''command'' (PyStr '''') (build_default b)"
    by (simp add: make_parser_def)
  then show ?thesis
    by (simp only: parser_sel_set_defaults simp_thms)
qed

section \<open>Properties of \<open>main_argparse\<close>\<close>

lemma and_then_Inr: "m = (Inr x, s) \<Longrightarrow> and_then m f = f x s"
  by (simp add: and_then_def)

lemma and_then_Inl: "m = (Inl e, s) \<Longrightarrow> and_then m f = (Inl e, s)"
  by (simp add: and_then_def)

lemma and_then_result:
  "and_then m f = (Inr y, s') \<Longrightarrow> \<exists>x s. m = (Inr x, s) \<and> f x s = (Inr y, s')"
  by (cases m) (auto simp: and_then_def split: sum.splits)

lemma main_argparse_prepare:
  "main_argparse lib commands descr w =
     and_then (prepare lib commands descr w) (\<lambda>args w1.
       (case run_command lib args w1 of (r, w2) \<Rightarrow> (exit_status r, w2)))"
  by (auto simp: main_argparse_def prepare_def main_after_help_def and_then_def exit_status_def Let_def
      split: prod.splits sum.splits)



lemma rmtree_result:
  "rmtree d w = (if d \<in> set (fs w) then (Inr (), w\<lparr>fs := filter (\<lambda>q. \<not> is_under d q) (fs w)\<rparr>)
                else (Inl (FileNotFoundError d), w))"
  by (simp add: rmtree_def)

lemma not_under_after_rmtree: "d \<notin> set (fs (snd (rmtree d w)))"
  by (auto simp: rmtree_def is_under_def)

lemma run_command_returns:
  assumes "run_command lib args w = (Inr ret, w')"
  shows "\<exists>f wa wb. attr_func_main args = Some f \<and> f (attrs args) wa = (Inr ret, wb)"
  using assms
  by (auto simp: run_command_def and_then_def try_finally_def call_func_main_def
      split: if_splits sum.splits prod.splits option.splits)



text \<open>
  C6. When \<open>main_argparse\<close> gets as far as running the command and the run gives the
  value \<open>ret\<close> (which is then a value that \<open>func_main\<close> returned), \<open>main_argparse\<close>
  returns 0 if \<open>ret\<close> is \<open>None\<close> and \<open>ret\<close> itself otherwise.
\<close>

theorem main_argparse_exit_status:
  assumes prep: "prepare lib commands descr w = (Inr args, w1)"
    and run: "run_command lib args w1 = (Inr ret, w2)"
  shows "main_argparse lib commands descr w = (Inr (if ret = PyNone then PyInt 0 else ret), w2)
    \<and> (\<exists>f wa wb. attr_func_main args = Some f \<and> f (attrs args) wa = (Inr ret, wb))"
  using run_command_returns [OF run]
  by (simp add: main_argparse_prepare and_then_Inr [OF prep] run exit_status_def)


section \<open>Help strings of subcommands\<close>

lemma help_str_of_cases:
  "help_str_of w cd =
     (if ''sphinx'' \<in> set (sys_modules w) then Some ''   ''
      else if str_truthy cd then cd
      else if str_truthy (map_of (environ w) ''READTHEDOCS'') then Some ''   '' else None)"
  by (cases cd) (auto simp: help_str_of_def str_truthy_def Let_def)

text \<open>
  C8, as amended. For a multi-command list, the help string of each subparser is computed
  from the documentation of its builder alone: a non-empty documentation string is kept
  when the module \<open>sphinx\<close> is not loaded; when the documentation is absent or empty, the
  help is the string of three blanks if \<open>READTHEDOCS\<close> is set to a non-empty value or
  \<open>sphinx\<close> is loaded, and \<open>None\<close> otherwise.
\<close>

theorem make_parser_help_strings:
  assumes "\<not> (length commands = 1 \<and> fst (commands ! 0) = None)"
  shows "subparser_helps (make_parser ver w commands descr)
           = map (\<lambda>(n, b). (n, help_str_of w (builder_doc b))) commands
    \<and> (\<forall>d. d \<noteq> [] \<and> ''sphinx'' \<notin> set (sys_modules w) \<longrightarrow> help_str_of w (Some d) = Some d)
    \<and> (\<forall>cd. cd = None \<or> cd = Some [] \<longrightarrow>
          help_str_of w cd =
            (if str_truthy (map_of (environ w) ''READTHEDOCS'') \<or> ''sphinx'' \<in> set (sys_modules w)
             then Some ''   '' else None))"
proof -
  let ?root = "add_subparsers ''subcommands'' ''command'' [CHR 0x1B, CHR ''['', CHR ''F'']
      (add_argument
         \<lparr>option_strings = [''--version'', ''-V''], dest = ''version'', action = VersionAction ver,
          default_value = PyStr SUPPRESS, arg_help = Some SUPPRESS\<rparr>
      (add_argument
         \<lparr>option_strings = [''--help'', ''-h''], dest = ''help'', action = EnumeratingHelpAction,
          default_value = PyStr SUPPRESS, arg_help = Some SUPPRESS\<rparr>
      (ArgumentParser (Some descr) (Some ''%(prog)s subcommand'') False)))"
  have root: "subparsers ?root \<noteq> None" "subparser_helps ?root = []"
    by (simp_all add: add_subparsers_def add_argument_def ArgumentParser_def subparser_helps_def)
  have "make_parser ver w commands descr =
      fold (\<lambda>(n, b) q. add_parser n (help_str_of w (builder_doc b))
                          (build_on b (ArgumentParser None None True)) q) commands ?root"
    using assms by (auto simp: make_parser_def Let_def)
  then have "subparser_helps (make_parser ver w commands descr)
           = map (\<lambda>(n, b). (n, help_str_of w (builder_doc b))) commands"
    using subparser_helps_fold [OF root(1),
        of "\<lambda>b. help_str_of w (builder_doc b)" "\<lambda>b. build_on b (ArgumentParser None None True)" commands]
    by (simp add: root(2))
  moreover have "\<forall>d. d \<noteq> [] \<and> ''sphinx'' \<notin> set (sys_modules w) \<longrightarrow> help_str_of w (Some d) = Some d"
    by (simp add: help_str_of_cases str_truthy_def)
  moreover have "\<forall>cd. cd = None \<or> cd = Some [] \<longrightarrow>
          help_str_of w cd =
            (if str_truthy (map_of (environ w) ''READTHEDOCS'') \<or> ''sphinx'' \<in> set (sys_modules w)
             then Some ''   '' else None)"
    by (auto simp: help_str_of_cases str_truthy_def)
  ultimately show ?thesis by blast
qed

section \<open>Runs on the example inputs\<close>

text \<open>The definitions that a run of \<open>main_argparse\<close> on a concrete command line unfolds.\<close>

lemmas run_defs =
  prepare_def forced_help_def help_args_def parse_and_log_def
  main_after_help_def run_command_def enter_tmp_dir_def leave_tmp_dir_def keep_requested_def
  call_func_main_def try_finally_def and_then_def exit_status_def
  make_parser_def help_str_of_def str_truthy_def ArgumentParser_def add_argument_def
  add_subparsers_def add_parser_def set_defaults_def set_func_main_def SUPPRESS_def
  argparse_parse_args_def initial_attrs_def
  setup_logger_def logging_level_def upper_char_def log_call_def
  script_name_def basename_def rsplit_dot_head_def proposed_dir_def
  mkdtemp_def rmtree_def is_under_def path_join_def hasattr_def getattr_def
  example_world_def example_lib_def example_commands_def example_builder_def plain_builder_def
  Let_def



theorem load_cmd_plugins_idempotent_witness:
  "load_cmd_plugins example_metadata (load_cmd_plugins example_metadata [])
     = load_cmd_plugins example_metadata []
   \<and> plugin_name ` set (load_cmd_plugins example_metadata []) = {''util.cmd'', ''util.metadata''}
   \<and> load_cmd_plugins example_metadata [example_metadata] = [example_metadata]"
  using load_cmd_plugins_idempotent [of example_metadata "[]"]
    load_cmd_plugins_idempotent [of example_metadata "[example_metadata]"]
  by (simp add: example_metadata_def)

theorem call_command_default_witness:
  "hook_cmd_call_cmd (load_cmd_plugins example_metadata []) (call_args example_handler)
       [(''a'', PyInt 1), (''b'', PyInt 2)] 0
     = (Inr (PyInt 2), 1)
   \<and> (\<exists>p mgr1 f.
         attach_main example_metadata (ArgumentParser None None True) example_handler True []
           = (Inr p, mgr1)
         \<and> func_main p = Some f
         \<and> f (hook_impls call_cmd_impl (load_cmd_plugins example_metadata []))
              [(''a'', PyInt 1), (''b'', PyInt 2)] 0 = (Inr (PyInt 1), 1))"
proof -
  let ?mgr = "load_cmd_plugins example_metadata []"
  let ?ns = "[(''a'', PyInt 1), (''b'', PyInt 2)]"
  have only: "List.map_filter call_cmd_impl ?mgr = [(True, cmd_call_cmd)]"
    by (simp add: load_cmd_plugins_def list_name_plugin_def register_def this_module_def
          example_metadata_def List.map_filter_simps)
  obtain p mgr1 where att:
    "attach_main example_metadata (ArgumentParser None None True) example_handler True [] = (Inr p, mgr1)"
    by (simp add: attach_main_def main_command_def example_handler_def Let_def)
  note inst = call_command_default [OF only, of "call_args example_handler" ?ns 0
      example_metadata "ArgumentParser None None True" example_handler True "[]"]
  from inst have first: "hook_cmd_call_cmd ?mgr (call_args example_handler) ?ns 0 = (Inr (PyInt 2), 1)"
    by (simp add: example_handler_def)
  from inst att obtain f where "func_main p = Some f"
    and "f (hook_impls call_cmd_impl ?mgr) ?ns 0
          = call_kw example_handler (dict_subset ?ns (argspec_args example_handler)) 0"
    by auto
  then have "func_main p = Some f \<and> f (hook_impls call_cmd_impl ?mgr) ?ns 0 = (Inr (PyInt 1), 1)"
    by (simp add: example_handler_def dict_subset_def)
  with att first show ?thesis by blast
qed

theorem make_parser_single_unnamed_witness:
  "make_parser ''1.25.0'' example_world [(None, plain_builder None status_command)] ''viral-ngs''
     = Parser None None
         [\<lparr>option_strings = [''-h'', ''--help''], dest = ''help'', action = HelpAction,
           default_value = PyStr ''==SUPPRESS=='', arg_help = Some ''show this help message and exit''\<rparr>,
          \<lparr>option_strings = [''--loglevel''], dest = ''loglevel'', action = StoreAction,
           default_value = PyStr ''INFO'', arg_help = None\<rparr>]
         [(''command'', PyStr [])] (Some status_command) None"
  using make_parser_single_unnamed [of "''1.25.0''" example_world "plain_builder None status_command" "''viral-ngs''"]
  by (simp add: plain_builder_def set_func_main_def ArgumentParser_def add_argument_def
        set_defaults_def SUPPRESS_def Let_def)

theorem make_parser_help_strings_witness:
  "subparser_helps (make_parser ''1.25.0'' (example_world\<lparr>environ := [(''READTHEDOCS'', ''True'')]\<rparr>)
       example_commands ''viral-ngs'')
     = [(Some ''assemble'', Some ''Assemble reads.''), (Some ''fail'', Some ''   ''),
        (Some ''status'', Some ''   '')]
   \<and> subparser_helps (make_parser ''1.25.0'' example_world example_commands ''viral-ngs'')
     = [(Some ''assemble'', Some ''Assemble reads.''), (Some ''fail'', None), (Some ''status'', None)]"
proof -
  have multi: "\<not> (length example_commands = 1 \<and> fst (example_commands ! 0) = None)"
    by (simp add: example_commands_def)
  from make_parser_help_strings [OF multi, of "''1.25.0''" "example_world\<lparr>environ := [(''READTHEDOCS'', ''True'')]\<rparr>" "''viral-ngs''"]
    make_parser_help_strings [OF multi, of "''1.25.0''" example_world "''viral-ngs''"]
  show ?thesis
    by (simp add: example_commands_def example_builder_def plain_builder_def example_world_def
          str_truthy_def Let_def)
qed

theorem make_parser_help_blank_counterexample:
  "subparser_helps (make_parser ''1.25.0'' (example_world\<lparr>sys_modules := [''sphinx'']\<rparr>)
       [(Some ''fail'', plain_builder None failing_command),
        (Some ''status'', plain_builder None status_command)] ''viral-ngs'')
     = [(Some ''fail'', Some ''   ''), (Some ''status'', Some ''   '')]
   \<and> map_of (environ (example_world\<lparr>sys_modules := [''sphinx'']\<rparr>)) ''READTHEDOCS'' = None
   \<and> subparser_helps (make_parser ''1.25.0'' (example_world\<lparr>environ := [(''READTHEDOCS'', ''True'')]\<rparr>)
       [(Some ''fail'', plain_builder None failing_command),
        (Some ''status'', plain_builder None status_command)] ''viral-ngs'')
     \<noteq> [(Some ''fail'', Some ''''), (Some ''status'', Some '''')]"
  by (simp add: make_parser_def help_str_of_def str_truthy_def ArgumentParser_def add_argument_def
        add_subparsers_def add_parser_def subparser_helps_def plain_builder_def example_world_def
        set_func_main_def Let_def)

theorem main_argparse_exit_status_witness:
  "fst (main_argparse example_lib example_commands ''viral-ngs''
         (example_world\<lparr>argv := [''/opt/viral-ngs/assembly.py'', ''status'', ''--loglevel'', ''ERROR'']\<rparr>))
     = Inr (PyInt 3)"
proof -
  let ?w = "example_world\<lparr>argv := [''/opt/viral-ngs/assembly.py'', ''status'', ''--loglevel'', ''ERROR'']\<rparr>"
  let ?args = "\<lparr>attrs = [(''command'', PyStr ''status''), (''loglevel'', PyStr ''ERROR'')],
                 attr_func_main = Some status_command\<rparr>"
  let ?w1 = "snd (prepare example_lib example_commands ''viral-ngs'' ?w)"
  have prep: "prepare example_lib example_commands ''viral-ngs'' ?w = (Inr ?args, ?w1)"
    by (simp add: run_defs prod_eq_iff)
  have run: "run_command example_lib ?args ?w1 = (Inr (PyInt 3), ?w1)"
    by (simp add: run_command_def hasattr_def call_func_main_def status_command_def)
  from main_argparse_exit_status [OF prep run] show ?thesis
    by simp
qed



end
